theory Spec2Isabelle
  imports Main
begin

section \<open>JavaScript values\<close>

text \<open>
  The repository is a React authentication client kept in three revisions:
  \<^item> the provider of \<^verbatim>\<open>src/AuthContext.tsx\<close> (\<^verbatim>\<open>decodeAndSetToken\<close>, \<^verbatim>\<open>handleCallback\<close>,
    \<^verbatim>\<open>logout\<close>);
  \<^item> the hooks \<^verbatim>\<open>src/useAuthCoreState.ts\<close> (\<^verbatim>\<open>saveTokenAndUser\<close>, \<^verbatim>\<open>clearTokenAndUser\<close>,
    the initial-load effect) and \<^verbatim>\<open>useAuthActions\<close> (\<^verbatim>\<open>handleAuthCallback\<close>);
  \<^item> an older provider that holds the same operations in one component
    (suffix \<open>_mono\<close> below).

  A decoded token payload is a JSON object. Its values are modelled by \<open>jsval\<close>; JSON
  numbers are restricted to integers, which is all the code's truthiness test needs.
  An object is its property lookup: \<open>None\<close> is what JavaScript reads as \<^verbatim>\<open>undefined\<close>.
\<close>

datatype jsval =
    JNull
  | JBool bool
  | JNum int
  | JStr string
  | JArr "jsval list"
  | JObj "(string \<times> jsval) list"

type_synonym jsobject = "string \<Rightarrow> jsval option"

fun js_truthy :: "jsval \<Rightarrow> bool" where
  "js_truthy JNull = False"
| "js_truthy (JBool b) = b"
| "js_truthy (JNum n) = (n \<noteq> 0)"
| "js_truthy (JStr s) = (s \<noteq> [])"
| "js_truthy (JArr xs) = True"
| "js_truthy (JObj kvs) = True"

text \<open>Truthiness of a property read (\<^verbatim>\<open>undefined\<close> is falsy) and the operator \<^verbatim>\<open>||\<close>.\<close>

fun prop_truthy :: "jsval option \<Rightarrow> bool" where
  "prop_truthy None = False"
| "prop_truthy (Some v) = js_truthy v"

definition js_or :: "jsval option \<Rightarrow> jsval option \<Rightarrow> jsval option" where
  "js_or a b = (if prop_truthy a then a else b)"

text \<open>
  A value of type \<^verbatim>\<open>string | null\<close> (what \<^verbatim>\<open>URLSearchParams.get\<close> and
  \<^verbatim>\<open>Storage.getItem\<close> return) is a \<open>string option\<close>. It is truthy when it is a
  non-empty string; a template literal prints \<^verbatim>\<open>null\<close> as the text "null".
\<close>

fun str_truthy :: "string option \<Rightarrow> bool" where
  "str_truthy None = False"
| "str_truthy (Some s) = (s \<noteq> [])"

fun template_str :: "string option \<Rightarrow> string" where
  "template_str None = ''null''"
| "template_str (Some s) = s"

section \<open>Session, configuration and the browser state\<close>

record AuthState =
  isAuthenticated :: bool
  user :: "jsobject option"
  isLoading :: bool
  error :: "string option"
  token :: "string option"

text \<open>
  The options of the provider. The two callbacks are code of the application; the model
  records whether one is supplied and logs each invocation as an \<open>event\<close>.
\<close>

record AuthProviderConfig =
  tokenStorageKey :: "string option"
  stateStorageKey :: "string option"
  onLoginSuccess :: bool
  onLogoutSuccess :: bool

datatype event =
    LoginSuccess jsobject string
  | LogoutSuccess
  | Navigate string

text \<open>The parameters \<^verbatim>\<open>token\<close>, \<^verbatim>\<open>state\<close> and \<^verbatim>\<open>error\<close> of \<^verbatim>\<open>window.location.search\<close>.\<close>

record query =
  q_token :: "string option"
  q_state :: "string option"
  q_error :: "string option"

record world =
  localStorage :: "string \<Rightarrow> string option"
  sessionStorage :: "string \<Rightarrow> string option"
  search :: query
  authState :: AuthState
  lastProcessedTokenRef :: "string option"
  isProcessingAuthCallbackRef :: bool
  events :: "event list"

definition tokenKey :: "AuthProviderConfig \<Rightarrow> string" where
  "tokenKey cfg = (case tokenStorageKey cfg of None \<Rightarrow> ''mgcmnd_auth_token'' | Some k \<Rightarrow> k)"

definition stateKey :: "AuthProviderConfig \<Rightarrow> string" where
  "stateKey cfg = (case stateStorageKey cfg of None \<Rightarrow> ''mgcmnd_oauth_app_state'' | Some k \<Rightarrow> k)"

definition setAuthState :: "(AuthState \<Rightarrow> AuthState) \<Rightarrow> world \<Rightarrow> world" where
  "setAuthState f w = w\<lparr>authState := f (authState w)\<rparr>"

text \<open>\<^verbatim>\<open>window.history.replaceState({}, document.title, window.location.pathname)\<close>\<close>

definition replaceState_pathname :: "world \<Rightarrow> world" where
  "replaceState_pathname w = w\<lparr>search := \<lparr>q_token = None, q_state = None, q_error = None\<rparr>\<rparr>"

text \<open>The unauthenticated shape that \<^verbatim>\<open>logout\<close> and \<^verbatim>\<open>clearTokenAndUser\<close> write.\<close>

definition emptyAuthState :: AuthState where
  "emptyAuthState =
     \<lparr>isAuthenticated = False, user = None, isLoading = False, error = None, token = None\<rparr>"

text \<open>The invariant of the session record that the specification states.\<close>

definition session_ok :: "AuthState \<Rightarrow> bool" where
  "session_ok s =
     (if isAuthenticated s then user s \<noteq> None \<and> token s \<noteq> None
      else user s = None \<and> token s = None)"

section \<open>useAuthCoreState.ts\<close>

text \<open>
  \<^verbatim>\<open>const { sub, ...otherClaims } = claims;
  const user = { ...otherClaims, id: sub, email: otherClaims.email,
                 name: otherClaims.name, picture: otherClaims.picture };\<close>
\<close>

definition claimsUser :: "jsobject \<Rightarrow> jsobject" where
  "claimsUser claims =
     (let sub = claims ''sub'';
          otherClaims = claims(''sub'' := None)
      in otherClaims
           (''id'' := sub,
            ''email'' := otherClaims ''email'',
            ''name'' := otherClaims ''name'',
            ''picture'' := otherClaims ''picture''))"

text \<open>
  \<open>jwtDecode\<close> of the package jwt-decode is a parameter: \<open>None\<close> when it throws,
  the payload otherwise, taken to be a JSON object as the type \<^verbatim>\<open>JwtPayload\<close> declares.
  The \<^verbatim>\<open>try\<close> block is taken to throw only there: \<^verbatim>\<open>localStorage.setItem\<close> and the
  callback of the application return.
\<close>

definition saveTokenAndUser ::
  "(string \<Rightarrow> jsobject option) \<Rightarrow> AuthProviderConfig \<Rightarrow> string \<Rightarrow> bool \<Rightarrow> world \<Rightarrow> world" where
  "saveTokenAndUser jwtDecode cfg jwtToken fromAuthCallback w =
     (if lastProcessedTokenRef w = Some jwtToken then w
      else
        let w1 = (if fromAuthCallback then w\<lparr>isProcessingAuthCallbackRef := True\<rparr> else w);
            w2 = w1\<lparr>localStorage := (localStorage w1)(tokenKey cfg := Some jwtToken)\<rparr>
        in case jwtDecode jwtToken of
             None \<Rightarrow>
               let w3 = setAuthState (\<lambda>prev. prev\<lparr>isLoading := False,
                          error := Some ''Authentication processing failed. Invalid token format.''\<rparr>) w2
               in (if fromAuthCallback then w3\<lparr>isProcessingAuthCallbackRef := False\<rparr> else w3)
           | Some claims \<Rightarrow>
               let u = claimsUser claims;
                   w3 = setAuthState (\<lambda>prev. \<lparr>isAuthenticated = True, user = Some u,
                          isLoading = False, error = None, token = Some jwtToken\<rparr>) w2;
                   w4 = w3\<lparr>lastProcessedTokenRef := Some jwtToken\<rparr>;
                   w5 = (if onLoginSuccess cfg
                         then w4\<lparr>events := events w4 @ [LoginSuccess u jwtToken]\<rparr> else w4)
               in (if fromAuthCallback then w5\<lparr>isProcessingAuthCallbackRef := False\<rparr> else w5))"

definition clearTokenAndUser :: "AuthProviderConfig \<Rightarrow> world \<Rightarrow> world" where
  "clearTokenAndUser cfg w =
     (let w1 = w\<lparr>localStorage := (localStorage w)(tokenKey cfg := None)\<rparr>;
          w2 = w1\<lparr>lastProcessedTokenRef := None\<rparr>;
          w3 = w2\<lparr>isProcessingAuthCallbackRef := False\<rparr>;
          w4 = setAuthState (\<lambda>prev. emptyAuthState) w3
      in (if onLogoutSuccess cfg then w4\<lparr>events := events w4 @ [LogoutSuccess]\<rparr> else w4))"

text \<open>The effect for initial token loading from localStorage.\<close>

definition initialTokenLoad ::
  "(string \<Rightarrow> jsobject option) \<Rightarrow> AuthProviderConfig \<Rightarrow> world \<Rightarrow> world" where
  "initialTokenLoad jwtDecode cfg w =
     (if isProcessingAuthCallbackRef w then w
      else
        case localStorage w (tokenKey cfg) of
          None \<Rightarrow> setAuthState (\<lambda>prev. prev\<lparr>isLoading := False\<rparr>) w
        | Some storedToken \<Rightarrow>
            if storedToken \<noteq> []
            then saveTokenAndUser jwtDecode cfg storedToken False w
            else setAuthState (\<lambda>prev. prev\<lparr>isLoading := False\<rparr>) w)"

text \<open>
  A page load of the hook revision: \<^verbatim>\<open>useState\<close> and \<^verbatim>\<open>useRef\<close> start from their
  initial values; both storages and the log of side effects are kept.
\<close>

definition pageLoad :: "world \<Rightarrow> world" where
  "pageLoad w =
     w\<lparr>authState := \<lparr>isAuthenticated = False, user = None, isLoading = True,
                       error = None, token = None\<rparr>,
       lastProcessedTokenRef := None,
       isProcessingAuthCallbackRef := False\<rparr>"

section \<open>useAuthActions: the callback handler of the hook revision\<close>

text \<open>
  The test \<^verbatim>\<open>!stateFromUrl || stateFromUrl !== storedSpaStateBeforeRemove\<close> of
  \<^verbatim>\<open>handleAuthCallback\<close>, written as a conditional.
\<close>

definition stateRejected :: "string option \<Rightarrow> string option \<Rightarrow> bool" where
  "stateRejected stateFromUrl storedSpaState =
     (if str_truthy stateFromUrl then stateFromUrl \<noteq> storedSpaState else True)"

definition handleAuthCallback ::
  "(string \<Rightarrow> jsobject option) \<Rightarrow> AuthProviderConfig \<Rightarrow> world \<Rightarrow> world" where
  "handleAuthCallback jwtDecode cfg w =
     (let w1 = setAuthState (\<lambda>prev. prev\<lparr>isLoading := True, error := None\<rparr>) w;
          tokenFromUrl = q_token (search w1);
          stateFromUrl = q_state (search w1);
          errorFromUrl = q_error (search w1);
          storedSpaStateBeforeRemove = sessionStorage w1 (stateKey cfg);
          w2 = w1\<lparr>sessionStorage := (sessionStorage w1)(stateKey cfg := None)\<rparr>
      in if str_truthy errorFromUrl
         then setAuthState (\<lambda>prev. \<lparr>isAuthenticated = False, user = None, isLoading = False,
                error = errorFromUrl, token = None\<rparr>) w2
         else if stateRejected stateFromUrl storedSpaStateBeforeRemove
         then setAuthState (\<lambda>prev. \<lparr>isAuthenticated = False, user = None, isLoading = False,
                error = Some (''Invalid state. URL: '' @ template_str stateFromUrl @
                              '', Stored: '' @ template_str storedSpaStateBeforeRemove),
                token = None\<rparr>) w2
         else case tokenFromUrl of
                None \<Rightarrow>
                  setAuthState (\<lambda>prev. prev\<lparr>isAuthenticated := False, user := None,
                    isLoading := False,
                    error := Some ''Authentication completed without a token, but state was valid.''\<rparr>) w2
              | Some t \<Rightarrow>
                  if t \<noteq> []
                  then replaceState_pathname (saveTokenAndUser jwtDecode cfg t True w2)
                  else setAuthState (\<lambda>prev. prev\<lparr>isAuthenticated := False, user := None,
                    isLoading := False,
                    error := Some ''Authentication completed without a token, but state was valid.''\<rparr>) w2)"

section \<open>The older provider (one component)\<close>

definition saveTokenAndUser_mono ::
  "(string \<Rightarrow> jsobject option) \<Rightarrow> AuthProviderConfig \<Rightarrow> string \<Rightarrow> world \<Rightarrow> world" where
  "saveTokenAndUser_mono jwtDecode cfg jwtToken w =
     (let w1 = w\<lparr>localStorage := (localStorage w)(tokenKey cfg := Some jwtToken)\<rparr>
      in case jwtDecode jwtToken of
           None \<Rightarrow>
             setAuthState (\<lambda>prev. prev\<lparr>isLoading := False,
               error := Some ''Authentication processing failed: Invalid token.''\<rparr>) w1
         | Some decodedClaims \<Rightarrow>
             let u = claimsUser decodedClaims;
                 w2 = setAuthState (\<lambda>prev. \<lparr>isAuthenticated = True, user = Some u,
                        isLoading = False, error = None, token = Some jwtToken\<rparr>) w1
             in (if onLoginSuccess cfg
                 then w2\<lparr>events := events w2 @ [LoginSuccess u jwtToken]\<rparr> else w2))"

definition handleAuthCallback_mono ::
  "(string \<Rightarrow> jsobject option) \<Rightarrow> AuthProviderConfig \<Rightarrow> world \<Rightarrow> world" where
  "handleAuthCallback_mono jwtDecode cfg w =
     (let w1 = setAuthState (\<lambda>prev. prev\<lparr>isLoading := True, error := None\<rparr>) w;
          tokenFromUrl = q_token (search w1);
          stateFromUrl = q_state (search w1);
          errorFromUrl = q_error (search w1);
          storedSpaStateBeforeRemove = sessionStorage w1 (stateKey cfg);
          w2 = w1\<lparr>sessionStorage := (sessionStorage w1)(stateKey cfg := None)\<rparr>
      in if str_truthy errorFromUrl
         then setAuthState (\<lambda>prev. \<lparr>isAuthenticated = False, user = None, isLoading = False,
                error = errorFromUrl, token = None\<rparr>) w2
         else if stateRejected stateFromUrl storedSpaStateBeforeRemove
         then setAuthState (\<lambda>prev. \<lparr>isAuthenticated = False, user = None, isLoading = False,
                error = Some (''Invalid state. URL: '' @ template_str stateFromUrl @
                              '', Stored: '' @ template_str storedSpaStateBeforeRemove),
                token = None\<rparr>) w2
         else case tokenFromUrl of
                None \<Rightarrow>
                  setAuthState (\<lambda>prev. prev\<lparr>isAuthenticated := False, user := None,
                    isLoading := False,
                    error := Some ''No token received but state was valid.''\<rparr>) w2
              | Some t \<Rightarrow>
                  if t \<noteq> []
                  then replaceState_pathname (saveTokenAndUser_mono jwtDecode cfg t w2)
                  else setAuthState (\<lambda>prev. prev\<lparr>isAuthenticated := False, user := None,
                    isLoading := False,
                    error := Some ''No token received but state was valid.''\<rparr>) w2)"

section \<open>src/AuthContext.tsx\<close>

text \<open>
  \<^verbatim>\<open>const user = { id: decoded.sub || decoded.id, email: decoded.email,
                 name: decoded.name, picture: decoded.picture, ...decoded };\<close>
  The spread comes last, so a property of the payload wins over the one written before it.
\<close>

definition decodedUser :: "jsobject \<Rightarrow> jsobject" where
  "decodedUser decoded =
     ((\<lambda>k. None)
        (''id'' := js_or (decoded ''sub'') (decoded ''id''),
         ''email'' := decoded ''email'',
         ''name'' := decoded ''name'',
         ''picture'' := decoded ''picture'')) ++ decoded"

text \<open>
  \<^verbatim>\<open>cfg.onLoginSuccess(user, token)\<close> and \<^verbatim>\<open>cfg.onLogoutSuccess()\<close>: the callback of the
  application, or the empty function of \<^verbatim>\<open>DEFAULT_CONFIG\<close>, which has no effect.
\<close>

definition call_onLoginSuccess :: "AuthProviderConfig \<Rightarrow> jsobject \<Rightarrow> string \<Rightarrow> world \<Rightarrow> world" where
  "call_onLoginSuccess cfg u t w =
     (if onLoginSuccess cfg then w\<lparr>events := events w @ [LoginSuccess u t]\<rparr> else w)"

definition call_onLogoutSuccess :: "AuthProviderConfig \<Rightarrow> world \<Rightarrow> world" where
  "call_onLogoutSuccess cfg w =
     (if onLogoutSuccess cfg then w\<lparr>events := events w @ [LogoutSuccess]\<rparr> else w)"

text \<open>
  \<^verbatim>\<open>decodeAndSetToken\<close> reads the variable \<^verbatim>\<open>state\<close> of the render that created it; the
  argument \<open>state\<close> is that captured value. The updates \<^verbatim>\<open>setState(prev => ...)\<close> work on
  the current state of the component, \<open>authState w\<close>.
\<close>

definition decodeAndSetToken ::
  "(string \<Rightarrow> jsobject option) \<Rightarrow> AuthProviderConfig \<Rightarrow> AuthState \<Rightarrow> string \<Rightarrow> bool \<Rightarrow> world \<Rightarrow> world" where
  "decodeAndSetToken jwtDecode cfg state t skipCallback w =
     (if token state = Some t \<and> isAuthenticated state then w
      else
        case jwtDecode t of
          None \<Rightarrow>
            setAuthState (\<lambda>prev. prev\<lparr>isLoading := False, error := Some ''Invalid token format''\<rparr>) w
        | Some decoded \<Rightarrow>
            let u = decodedUser decoded;
                w1 = w\<lparr>localStorage := (localStorage w)(tokenKey cfg := Some t)\<rparr>;
                w2 = setAuthState (\<lambda>prev. \<lparr>isAuthenticated = True, user = Some u,
                       isLoading = False, error = None, token = Some t\<rparr>) w1
            in (if skipCallback then w2 else call_onLoginSuccess cfg u t w2))"

text \<open>The effect that loads the token on mount.\<close>

definition loadTokenOnMount ::
  "(string \<Rightarrow> jsobject option) \<Rightarrow> AuthProviderConfig \<Rightarrow> AuthState \<Rightarrow> world \<Rightarrow> world" where
  "loadTokenOnMount jwtDecode cfg state w =
     (case localStorage w (tokenKey cfg) of
        None \<Rightarrow> w
      | Some t \<Rightarrow> if t \<noteq> [] then decodeAndSetToken jwtDecode cfg state t True w else w)"

definition logout :: "AuthProviderConfig \<Rightarrow> string option \<Rightarrow> world \<Rightarrow> world" where
  "logout cfg redirectUrl w =
     (let w1 = w\<lparr>localStorage := (localStorage w)(tokenKey cfg := None)\<rparr>;
          w2 = setAuthState (\<lambda>prev. emptyAuthState) w1;
          w3 = call_onLogoutSuccess cfg w2
      in case redirectUrl of
           None \<Rightarrow> w3
         | Some url \<Rightarrow> if url \<noteq> [] then w3\<lparr>events := events w3 @ [Navigate url]\<rparr> else w3)"

text \<open>The test \<^verbatim>\<open>stateParam !== storedState\<close> of \<^verbatim>\<open>handleCallback\<close>.\<close>

definition stateDiffers :: "string option \<Rightarrow> string option \<Rightarrow> bool" where
  "stateDiffers stateParam storedState = (stateParam \<noteq> storedState)"

definition handleCallback ::
  "(string \<Rightarrow> jsobject option) \<Rightarrow> AuthProviderConfig \<Rightarrow> AuthState \<Rightarrow> world \<Rightarrow> world" where
  "handleCallback jwtDecode cfg state w =
     (let tokenParam = q_token (search w);
          stateParam = q_state (search w);
          errorParam = q_error (search w);
          storedState = sessionStorage w ''oauth_state'';
          w1 = w\<lparr>sessionStorage := (sessionStorage w)(''oauth_state'' := None)\<rparr>;
          w2 = replaceState_pathname w1
      in if str_truthy errorParam
         then setAuthState (\<lambda>prev. prev\<lparr>error := errorParam\<rparr>) w2
         else if stateDiffers stateParam storedState
         then setAuthState (\<lambda>prev. prev\<lparr>error := Some ''Invalid state parameter''\<rparr>) w2
         else case tokenParam of
                None \<Rightarrow> setAuthState (\<lambda>prev. prev\<lparr>error := Some ''No token received''\<rparr>) w2
              | Some t \<Rightarrow>
                  if t \<noteq> []
                  then decodeAndSetToken jwtDecode cfg state t False w2
                  else setAuthState (\<lambda>prev. prev\<lparr>error := Some ''No token received''\<rparr>) w2)"

text \<open>A page load of this provider: \<^verbatim>\<open>useState\<close> starts from its initial value.\<close>

definition initialState :: AuthState where
  "initialState =
     \<lparr>isAuthenticated = False, user = None, isLoading = False, error = None, token = None\<rparr>"

definition pageLoad_provider :: "world \<Rightarrow> world" where
  "pageLoad_provider w = w\<lparr>authState := initialState\<rparr>"

section \<open>Concrete inputs\<close>

definition demoDecode :: "string \<Rightarrow> jsobject option" where
  "demoDecode t =
     (if t = ''validJWT'' then Some ((\<lambda>k. None)(''sub'' := Some (JStr ''u1''),
                                                   ''email'' := Some (JStr ''a@b.com'')))
      else if t = ''noSubJWT'' then Some ((\<lambda>k. None)(''email'' := Some (JStr ''a@b.com'')))
      else if t = ''idJWT'' then Some ((\<lambda>k. None)(''sub'' := Some (JStr ''u1''),
                                                    ''id'' := Some (JStr ''other'')))
      else None)"

definition demoConfig :: AuthProviderConfig where
  "demoConfig = \<lparr>tokenStorageKey = None, stateStorageKey = None,
                  onLoginSuccess = True, onLogoutSuccess = True\<rparr>"

definition noQuery :: query where
  "noQuery = \<lparr>q_token = None, q_state = None, q_error = None\<rparr>"

text \<open>A browser with empty storages, before the first page load.\<close>

definition freshWorld :: world where
  "freshWorld =
     \<lparr>localStorage = (\<lambda>k. None), sessionStorage = (\<lambda>k. None), search = noQuery,
      authState = initialState, lastProcessedTokenRef = None,
      isProcessingAuthCallbackRef = False, events = []\<rparr>"

text \<open>A navigation to a callback URL, and a browser in which a login has stored the state \<open>X\<close>.\<close>

definition visit :: "query \<Rightarrow> world \<Rightarrow> world" where
  "visit q w = w\<lparr>search := q\<rparr>"

definition issuedWorld :: world where
  "issuedWorld =
     freshWorld\<lparr>sessionStorage := (\<lambda>k. None)(''mgcmnd_oauth_app_state'' := Some ''X'',
                                               ''oauth_state'' := Some ''X'')\<rparr>"

definition tokenQuery :: query where
  "tokenQuery = \<lparr>q_token = Some ''validJWT'', q_state = Some ''X'', q_error = None\<rparr>"

text \<open>Further browsers and callback URLs used as concrete inputs.\<close>

definition returningWorld :: world where
  "returningWorld =
     issuedWorld\<lparr>localStorage := (\<lambda>k. None)(''mgcmnd_auth_token'' := Some ''validJWT'')\<rparr>"

definition garbageWorld :: world where
  "garbageWorld =
     freshWorld\<lparr>localStorage := (\<lambda>k. None)(''mgcmnd_auth_token'' := Some ''garbage'')\<rparr>"

text \<open>A browser whose durable storage holds the empty string under the token key.\<close>

definition emptyTokenWorld :: world where
  "emptyTokenWorld =
     freshWorld\<lparr>localStorage := (\<lambda>k. None)(''mgcmnd_auth_token'' := Some [])\<rparr>"

definition tokenOnlyQuery :: query where
  "tokenOnlyQuery = \<lparr>q_token = Some ''validJWT'', q_state = None, q_error = None\<rparr>"

definition stateOnlyQuery :: query where
  "stateOnlyQuery = \<lparr>q_token = None, q_state = Some ''X'', q_error = None\<rparr>"

definition errorQuery :: query where
  "errorQuery = \<lparr>q_token = None, q_state = Some ''X'', q_error = Some ''access_denied''\<rparr>"

text \<open>
  The hook revision after a login with \<^verbatim>\<open>validJWT\<close> followed by a callback that the provider
  answered with an error: the session is unauthenticated again.
\<close>

definition rejectedWorld :: world where
  "rejectedWorld =
     handleAuthCallback demoDecode demoConfig (visit errorQuery
       (saveTokenAndUser demoDecode demoConfig ''validJWT'' True (pageLoad freshWorld)))"

text \<open>The number of invocations of \<^verbatim>\<open>onLoginSuccess\<close> in the log of side effects.\<close>

fun isLoginSuccess :: "event \<Rightarrow> bool" where
  "isLoginSuccess (LoginSuccess u t) = True"
| "isLoginSuccess LogoutSuccess = False"
| "isLoginSuccess (Navigate url) = False"

definition loginCount :: "world \<Rightarrow> nat" where
  "loginCount w = length (filter isLoginSuccess (events w))"

text \<open>
  The states the provider of \<^verbatim>\<open>src/AuthContext.tsx\<close> can reach: a page load, any change
  of the storages and of the URL from outside, and its operations, each called from any
  render (any captured \<open>state\<close>).
\<close>

inductive reachable_provider ::
  "(string \<Rightarrow> jsobject option) \<Rightarrow> AuthProviderConfig \<Rightarrow> world \<Rightarrow> bool"
  for jwtDecode :: "string \<Rightarrow> jsobject option" and cfg :: AuthProviderConfig where
  rp_load: "reachable_provider jwtDecode cfg (pageLoad_provider w)"
| rp_env: "reachable_provider jwtDecode cfg w \<Longrightarrow>
     reachable_provider jwtDecode cfg (w\<lparr>localStorage := ls, sessionStorage := ss, search := q\<rparr>)"
| rp_mount: "reachable_provider jwtDecode cfg w \<Longrightarrow>
     reachable_provider jwtDecode cfg (loadTokenOnMount jwtDecode cfg st w)"
| rp_decode: "reachable_provider jwtDecode cfg w \<Longrightarrow>
     reachable_provider jwtDecode cfg (decodeAndSetToken jwtDecode cfg st t skipCallback w)"
| rp_callback: "reachable_provider jwtDecode cfg w \<Longrightarrow>
     reachable_provider jwtDecode cfg (handleCallback jwtDecode cfg st w)"
| rp_logout: "reachable_provider jwtDecode cfg w \<Longrightarrow>
     reachable_provider jwtDecode cfg (logout cfg redirectUrl w)"

section \<open>Unfolding the model\<close>

lemmas demo_defs = demoDecode_def demoConfig_def freshWorld_def issuedWorld_def returningWorld_def
  noQuery_def initialState_def visit_def pageLoad_def pageLoad_provider_def tokenKey_def stateKey_def

lemmas op_defs = saveTokenAndUser_def clearTokenAndUser_def initialTokenLoad_def
  handleAuthCallback_def saveTokenAndUser_mono_def handleAuthCallback_mono_def
  decodeAndSetToken_def loadTokenOnMount_def logout_def handleCallback_def
  call_onLoginSuccess_def call_onLogoutSuccess_def setAuthState_def replaceState_pathname_def
  stateRejected_def stateDiffers_def Let_def

section \<open>The CSRF state check\<close>

lemma handleAuthCallback_consumes:
  "sessionStorage (handleAuthCallback jwtDecode cfg w) (stateKey cfg) = None"
  by (simp add: handleAuthCallback_def saveTokenAndUser_def setAuthState_def
      replaceState_pathname_def Let_def split: option.splits)

lemma handleCallback_consumes:
  "sessionStorage (handleCallback jwtDecode cfg st w) ''oauth_state'' = None"
  by (simp add: handleCallback_def decodeAndSetToken_def call_onLoginSuccess_def setAuthState_def
      replaceState_pathname_def Let_def split: option.splits)

lemma stateRejected_no_stored: "stateRejected s None"
  by (cases s) (simp_all add: stateRejected_def)

lemma stateRejected_no_candidate: "stateRejected None s"
  by (simp add: stateRejected_def)

lemma handleAuthCallback_no_stored:
  assumes "sessionStorage w (stateKey cfg) = None"
  shows "authState (handleAuthCallback jwtDecode cfg w) =
           \<lparr>isAuthenticated = False, user = None, isLoading = False,
            error = (if str_truthy (q_error (search w)) then q_error (search w)
                     else Some (''Invalid state. URL: '' @ template_str (q_state (search w)) @ '', Stored: null'')),
            token = None\<rparr>
         \<and> localStorage (handleAuthCallback jwtDecode cfg w) = localStorage w
         \<and> events (handleAuthCallback jwtDecode cfg w) = events w"
  using assms
  by (simp add: handleAuthCallback_def stateRejected_no_stored setAuthState_def Let_def)

lemma handleCallback_no_stored:
  assumes "sessionStorage w ''oauth_state'' = None" "q_state (search w) = Some S"
  shows "authState (handleCallback jwtDecode cfg st w) =
           (authState w)\<lparr>error := (if str_truthy (q_error (search w)) then q_error (search w)
                     else Some ''Invalid state parameter'')\<rparr>
         \<and> localStorage (handleCallback jwtDecode cfg st w) = localStorage w
         \<and> events (handleCallback jwtDecode cfg st w) = events w"
  using assms
  by (simp add: handleCallback_def stateDiffers_def setAuthState_def replaceState_pathname_def Let_def)

text \<open>
  Claim C1. The claim asks that the state check fail whenever the URL has no state or no
  state is stored. In \<^verbatim>\<open>handleCallback\<close> of \<^verbatim>\<open>src/AuthContext.tsx\<close> the test is
  \<^verbatim>\<open>stateParam !== storedState\<close> alone, and two absent values are equal: a callback URL
  with a token and no state, in a browser with no stored state, is accepted, the session
  becomes authenticated and the token is persisted.
\<close>

theorem handleCallback_accepts_missing_state:
  "q_state (search (visit tokenOnlyQuery freshWorld)) = None \<and>
   sessionStorage (visit tokenOnlyQuery freshWorld) ''oauth_state'' = None \<and>
   \<not> stateDiffers None None \<and>
   isAuthenticated (authState (handleCallback demoDecode demoConfig initialState
       (visit tokenOnlyQuery freshWorld))) \<and>
   token (authState (handleCallback demoDecode demoConfig initialState
       (visit tokenOnlyQuery freshWorld))) = Some ''validJWT'' \<and>
   localStorage (handleCallback demoDecode demoConfig initialState
       (visit tokenOnlyQuery freshWorld)) ''mgcmnd_auth_token'' = Some ''validJWT''"
  by (simp add: op_defs demo_defs tokenOnlyQuery_def)

text \<open>
  The other two handlers test \<^verbatim>\<open>!stateFromUrl\<close> first and reject both cases; the handler
  above rejects when exactly one of the two values is absent.
\<close>

lemma handleAuthCallback_rejects_missing_state:
  assumes "q_state (search w) = None \<or> sessionStorage w (stateKey cfg) = None"
  shows "\<not> isAuthenticated (authState (handleAuthCallback jwtDecode cfg w)) \<and>
         user (authState (handleAuthCallback jwtDecode cfg w)) = None \<and>
         token (authState (handleAuthCallback jwtDecode cfg w)) = None \<and>
         error (authState (handleAuthCallback jwtDecode cfg w)) \<noteq> None \<and>
         localStorage (handleAuthCallback jwtDecode cfg w) = localStorage w \<and>
         events (handleAuthCallback jwtDecode cfg w) = events w"
proof -
  have "stateRejected (q_state (search w)) (sessionStorage w (stateKey cfg))"
    using assms stateRejected_no_stored stateRejected_no_candidate by auto
  then show ?thesis
    by (cases "q_error (search w)") (simp_all add: handleAuthCallback_def setAuthState_def Let_def)
qed

lemma handleAuthCallback_mono_rejects_missing_state:
  assumes "q_state (search w) = None \<or> sessionStorage w (stateKey cfg) = None"
  shows "\<not> isAuthenticated (authState (handleAuthCallback_mono jwtDecode cfg w)) \<and>
         user (authState (handleAuthCallback_mono jwtDecode cfg w)) = None \<and>
         token (authState (handleAuthCallback_mono jwtDecode cfg w)) = None \<and>
         error (authState (handleAuthCallback_mono jwtDecode cfg w)) \<noteq> None \<and>
         localStorage (handleAuthCallback_mono jwtDecode cfg w) = localStorage w \<and>
         events (handleAuthCallback_mono jwtDecode cfg w) = events w"
proof -
  have "stateRejected (q_state (search w)) (sessionStorage w (stateKey cfg))"
    using assms stateRejected_no_stored stateRejected_no_candidate by auto
  then show ?thesis
    by (cases "q_error (search w)") (simp_all add: handleAuthCallback_mono_def setAuthState_def Let_def)
qed

lemma handleCallback_rejects_one_missing:
  assumes "(q_state (search w) = None) \<noteq> (sessionStorage w ''oauth_state'' = None)"
  shows "isAuthenticated (authState (handleCallback jwtDecode cfg st w)) = isAuthenticated (authState w) \<and>
         error (authState (handleCallback jwtDecode cfg st w)) \<noteq> None \<and>
         localStorage (handleCallback jwtDecode cfg st w) = localStorage w \<and>
         events (handleCallback jwtDecode cfg st w) = events w"
proof -
  have "stateDiffers (q_state (search w)) (sessionStorage w ''oauth_state'')"
    using assms by (auto simp: stateDiffers_def)
  then show ?thesis
    by (cases "q_error (search w)")
      (simp_all add: handleCallback_def setAuthState_def replaceState_pathname_def Let_def)
qed

text \<open>
  Claim C2. Both callback handlers remove the stored CSRF state whatever the comparison
  gives. So after one run, a later callback that carries a state \<open>S\<close> and finds the
  storage as that run left it is rejected: the state test fails, the session carries an
  error, and neither the durable storage nor the log of side effects changes.
\<close>

theorem csrf_state_single_use:
  assumes "q_state (search w') = Some S"
    and "sessionStorage w' (stateKey cfg) = sessionStorage (handleAuthCallback jwtDecode cfg w) (stateKey cfg)"
    and "q_state (search v') = Some S"
    and "sessionStorage v' ''oauth_state'' = sessionStorage (handleCallback jwtDecode cfg st v) ''oauth_state''"
  shows "sessionStorage (handleAuthCallback jwtDecode cfg w) (stateKey cfg) = None \<and>
         stateRejected (Some S) (sessionStorage w' (stateKey cfg)) \<and>
         authState (handleAuthCallback jwtDecode cfg w') =
           \<lparr>isAuthenticated = False, user = None, isLoading = False,
            error = (if str_truthy (q_error (search w')) then q_error (search w')
                     else Some (''Invalid state. URL: '' @ S @ '', Stored: null'')),
            token = None\<rparr> \<and>
         localStorage (handleAuthCallback jwtDecode cfg w') = localStorage w' \<and>
         events (handleAuthCallback jwtDecode cfg w') = events w' \<and>
         sessionStorage (handleCallback jwtDecode cfg st v) ''oauth_state'' = None \<and>
         stateDiffers (Some S) (sessionStorage v' ''oauth_state'') \<and>
         authState (handleCallback jwtDecode cfg st' v') =
           (authState v')\<lparr>error := (if str_truthy (q_error (search v')) then q_error (search v')
                                    else Some ''Invalid state parameter'')\<rparr> \<and>
         localStorage (handleCallback jwtDecode cfg st' v') = localStorage v' \<and>
         events (handleCallback jwtDecode cfg st' v') = events v'"
proof -
  have hooks: "sessionStorage w' (stateKey cfg) = None"
    using assms(2) by (simp add: handleAuthCallback_consumes)
  have prov: "sessionStorage v' ''oauth_state'' = None"
    using assms(4) by (simp add: handleCallback_consumes)
  have a: "stateRejected (Some S) (sessionStorage w' (stateKey cfg))"
    using hooks by (simp add: stateRejected_no_stored)
  have b: "stateDiffers (Some S) (sessionStorage v' ''oauth_state'')"
    using prov by (simp add: stateDiffers_def)
  show ?thesis
    using handleAuthCallback_no_stored [OF hooks, of jwtDecode]
      handleCallback_no_stored [OF prov assms(3), of jwtDecode cfg st']
      a b assms(1)
    by (simp add: handleAuthCallback_consumes handleCallback_consumes)
qed

theorem csrf_state_single_use_witness:
  "error (authState (handleAuthCallback demoDecode demoConfig
      (visit tokenQuery (handleAuthCallback demoDecode demoConfig (visit tokenQuery issuedWorld)))))
     = Some ''Invalid state. URL: X, Stored: null'' \<and>
   error (authState (handleCallback demoDecode demoConfig initialState
      (visit tokenQuery (pageLoad_provider
         (handleCallback demoDecode demoConfig initialState (visit tokenQuery issuedWorld))))))
     = Some ''Invalid state parameter''"
  using csrf_state_single_use [of
      "visit tokenQuery (handleAuthCallback demoDecode demoConfig (visit tokenQuery issuedWorld))"
      "''X''" demoConfig demoDecode "visit tokenQuery issuedWorld"
      "visit tokenQuery (pageLoad_provider
         (handleCallback demoDecode demoConfig initialState (visit tokenQuery issuedWorld)))"
      initialState "visit tokenQuery issuedWorld" initialState]
  by (simp add: visit_def tokenQuery_def pageLoad_provider_def)

section \<open>An error reported by the provider\<close>

text \<open>
  A session restored from the durable storage, then a callback with
  \<^verbatim>\<open>error=access_denied&state=X\<close> while \<open>X\<close> is stored: \<^verbatim>\<open>handleCallback\<close> writes the error
  and leaves the session authenticated.
\<close>

theorem handleCallback_error_keeps_session:
  "sessionStorage (visit errorQuery
      (loadTokenOnMount demoDecode demoConfig initialState (pageLoad_provider returningWorld)))
      ''oauth_state'' = Some ''X'' \<and>
   error (authState (handleCallback demoDecode demoConfig initialState (visit errorQuery
      (loadTokenOnMount demoDecode demoConfig initialState (pageLoad_provider returningWorld)))))
     = Some ''access_denied'' \<and>
   isAuthenticated (authState (handleCallback demoDecode demoConfig initialState (visit errorQuery
      (loadTokenOnMount demoDecode demoConfig initialState (pageLoad_provider returningWorld))))) \<and>
   token (authState (handleCallback demoDecode demoConfig initialState (visit errorQuery
      (loadTokenOnMount demoDecode demoConfig initialState (pageLoad_provider returningWorld)))))
     = Some ''validJWT''"
  by (simp add: op_defs demo_defs errorQuery_def)

text \<open>
  Claim C3, amended. A callback whose URL carries a non-empty \<^verbatim>\<open>error\<close> is rejected with
  exactly that message, whatever the state parameter, and the stored CSRF state is
  removed. \<^verbatim>\<open>handleAuthCallback\<close> (both revisions) writes the unauthenticated session;
  \<^verbatim>\<open>handleCallback\<close> writes the error only and keeps the other fields of the session.
\<close>

theorem provider_error_rejects:
  assumes "q_error (search w) = Some e" and "e \<noteq> []"
  shows "authState (handleAuthCallback jwtDecode cfg w) =
           \<lparr>isAuthenticated = False, user = None, isLoading = False, error = Some e, token = None\<rparr> \<and>
         sessionStorage (handleAuthCallback jwtDecode cfg w) (stateKey cfg) = None \<and>
         authState (handleAuthCallback_mono jwtDecode cfg w) =
           \<lparr>isAuthenticated = False, user = None, isLoading = False, error = Some e, token = None\<rparr> \<and>
         sessionStorage (handleAuthCallback_mono jwtDecode cfg w) (stateKey cfg) = None \<and>
         authState (handleCallback jwtDecode cfg st w) = (authState w)\<lparr>error := Some e\<rparr> \<and>
         sessionStorage (handleCallback jwtDecode cfg st w) ''oauth_state'' = None"
  using assms
  by (simp add: handleAuthCallback_def handleAuthCallback_mono_def handleCallback_def
      setAuthState_def replaceState_pathname_def Let_def)

theorem provider_error_rejects_witness:
  "authState (handleAuthCallback demoDecode demoConfig (visit errorQuery issuedWorld)) =
     \<lparr>isAuthenticated = False, user = None, isLoading = False,
      error = Some ''access_denied'', token = None\<rparr> \<and>
   sessionStorage (handleAuthCallback demoDecode demoConfig (visit errorQuery issuedWorld))
     ''mgcmnd_oauth_app_state'' = None \<and>
   error (authState (handleCallback demoDecode demoConfig initialState (visit errorQuery issuedWorld)))
     = Some ''access_denied'' \<and>
   \<not> isAuthenticated (authState (handleCallback demoDecode demoConfig initialState
       (visit errorQuery issuedWorld))) \<and>
   sessionStorage (handleCallback demoDecode demoConfig initialState (visit errorQuery issuedWorld))
     ''oauth_state'' = None"
  using provider_error_rejects [of "visit errorQuery issuedWorld" "''access_denied''"
      demoDecode demoConfig initialState]
  by (simp add: demo_defs errorQuery_def)

section \<open>Materializing a session\<close>

text \<open>
  Two calls in succession with a token that decodes invoke \<^verbatim>\<open>onLoginSuccess\<close> twice in
  \<^verbatim>\<open>saveTokenAndUser\<close> of the older provider, which has no guard, and in
  \<^verbatim>\<open>decodeAndSetToken\<close> when both calls come from one render. In the hook revision the
  guard is a ref that a rejected callback does not reset: there the session has no token,
  and the two calls neither invoke the callback nor establish a session.
\<close>

theorem materialize_twice_not_once:
  "loginCount (saveTokenAndUser_mono demoDecode demoConfig ''validJWT''
      (saveTokenAndUser_mono demoDecode demoConfig ''validJWT'' (pageLoad freshWorld))) = 2 \<and>
   loginCount (decodeAndSetToken demoDecode demoConfig initialState ''validJWT'' False
      (decodeAndSetToken demoDecode demoConfig initialState ''validJWT'' False freshWorld)) = 2 \<and>
   token (authState rejectedWorld) = None \<and>
   lastProcessedTokenRef rejectedWorld = Some ''validJWT'' \<and>
   loginCount (saveTokenAndUser demoDecode demoConfig ''validJWT'' True
      (saveTokenAndUser demoDecode demoConfig ''validJWT'' True rejectedWorld)) =
     loginCount rejectedWorld \<and>
   \<not> isAuthenticated (authState (saveTokenAndUser demoDecode demoConfig ''validJWT'' True
      (saveTokenAndUser demoDecode demoConfig ''validJWT'' True rejectedWorld)))"
  by (simp add: loginCount_def rejectedWorld_def errorQuery_def op_defs demo_defs)

lemma saveTokenAndUser_twice:
  "saveTokenAndUser jwtDecode cfg t True (saveTokenAndUser jwtDecode cfg t True w) =
     saveTokenAndUser jwtDecode cfg t True w"
proof (cases "lastProcessedTokenRef w = Some t")
  case True
  then show ?thesis by (simp add: saveTokenAndUser_def)
next
  case False
  then show ?thesis
    by (cases "jwtDecode t") (simp_all add: saveTokenAndUser_def setAuthState_def Let_def)
qed

lemma saveTokenAndUser_events:
  "events (saveTokenAndUser jwtDecode cfg t b w) =
     events w @
       (case jwtDecode t of
          None \<Rightarrow> []
        | Some claims \<Rightarrow>
            if onLoginSuccess cfg \<and> lastProcessedTokenRef w \<noteq> Some t
            then [LoginSuccess (claimsUser claims) t] else [])"
  by (cases "jwtDecode t") (simp_all add: saveTokenAndUser_def setAuthState_def Let_def)

lemma decodeAndSetToken_events:
  assumes "\<not> (token st = Some t \<and> isAuthenticated st)"
  shows "events (decodeAndSetToken jwtDecode cfg st t False v) =
     events v @
       (case jwtDecode t of
          None \<Rightarrow> []
        | Some claims \<Rightarrow>
            if onLoginSuccess cfg then [LoginSuccess (decodedUser claims) t] else [])"
  using assms
  by (cases "jwtDecode t")
    (auto simp: decodeAndSetToken_def call_onLoginSuccess_def setAuthState_def Let_def)

lemma decodeAndSetToken_next_render:
  assumes "\<not> (token st = Some t \<and> isAuthenticated st)"
  shows "decodeAndSetToken jwtDecode cfg
           (authState (decodeAndSetToken jwtDecode cfg st t False v)) t False
           (decodeAndSetToken jwtDecode cfg st t False v) =
         decodeAndSetToken jwtDecode cfg st t False v"
proof (cases "jwtDecode t")
  case None
  have first: "decodeAndSetToken jwtDecode cfg st t False v =
      setAuthState (\<lambda>prev. prev\<lparr>isLoading := False, error := Some ''Invalid token format''\<rparr>) v"
    using None assms by (auto simp: decodeAndSetToken_def)
  show ?thesis
    unfolding first
    using None by (simp add: decodeAndSetToken_def setAuthState_def)
next
  case (Some claims)
  have held: "token (authState (decodeAndSetToken jwtDecode cfg st t False v)) = Some t \<and>
      isAuthenticated (authState (decodeAndSetToken jwtDecode cfg st t False v))"
    using Some assms
    by (auto simp: decodeAndSetToken_def call_onLoginSuccess_def setAuthState_def Let_def)
  show ?thesis
    using held
    by (simp add: decodeAndSetToken_def [of jwtDecode cfg
          "authState (decodeAndSetToken jwtDecode cfg st t False v)"])
qed

lemma saveTokenAndUser_mono_events:
  "events (saveTokenAndUser_mono jwtDecode cfg t w) =
     events w @
       (case jwtDecode t of
          None \<Rightarrow> []
        | Some claims \<Rightarrow>
            if onLoginSuccess cfg then [LoginSuccess (claimsUser claims) t] else [])"
  by (cases "jwtDecode t") (simp_all add: saveTokenAndUser_mono_def setAuthState_def Let_def)

text \<open>
  Claim C4, amended. Two calls in succession with the same token \<open>t\<close> and a new login.
  \<^verbatim>\<open>saveTokenAndUser\<close> of \<^verbatim>\<open>useAuthCoreState\<close>: the second call changes nothing, and the two
  calls invoke \<^verbatim>\<open>onLoginSuccess\<close> once when \<open>t\<close> decodes, the callback is configured and \<open>t\<close>
  is not the token in \<open>lastProcessedTokenRef\<close>, and not at all otherwise.
  \<^verbatim>\<open>decodeAndSetToken\<close>, first called from a render whose state does not hold \<open>t\<close>
  authenticated and then from a render that has seen the state the first call wrote: the
  second call changes nothing, and a configured callback is invoked once when \<open>t\<close>
  decodes, not at all when it does not.
  \<^verbatim>\<open>saveTokenAndUser\<close> of the older provider has no guard: when \<open>t\<close> decodes, the two
  calls invoke a configured callback twice.
\<close>

theorem materialize_twice_side_effects:
  "saveTokenAndUser jwtDecode cfg t True (saveTokenAndUser jwtDecode cfg t True w) =
     saveTokenAndUser jwtDecode cfg t True w \<and>
   events (saveTokenAndUser jwtDecode cfg t True (saveTokenAndUser jwtDecode cfg t True w)) =
     events w @
       (case jwtDecode t of
          None \<Rightarrow> []
        | Some claims \<Rightarrow>
            if onLoginSuccess cfg \<and> lastProcessedTokenRef w \<noteq> Some t
            then [LoginSuccess (claimsUser claims) t] else []) \<and>
   (\<not> (token st = Some t \<and> isAuthenticated st) \<longrightarrow>
      decodeAndSetToken jwtDecode cfg
          (authState (decodeAndSetToken jwtDecode cfg st t False v)) t False
          (decodeAndSetToken jwtDecode cfg st t False v) =
        decodeAndSetToken jwtDecode cfg st t False v \<and>
      events (decodeAndSetToken jwtDecode cfg
          (authState (decodeAndSetToken jwtDecode cfg st t False v)) t False
          (decodeAndSetToken jwtDecode cfg st t False v)) =
        events v @
          (case jwtDecode t of
             None \<Rightarrow> []
           | Some claims \<Rightarrow>
               if onLoginSuccess cfg then [LoginSuccess (decodedUser claims) t] else [])) \<and>
   events (saveTokenAndUser_mono jwtDecode cfg t (saveTokenAndUser_mono jwtDecode cfg t u)) =
     events u @
       (case jwtDecode t of
          None \<Rightarrow> []
        | Some claims \<Rightarrow>
            if onLoginSuccess cfg
            then [LoginSuccess (claimsUser claims) t, LoginSuccess (claimsUser claims) t]
            else [])"
proof -
  have hook: "events (saveTokenAndUser jwtDecode cfg t True
        (saveTokenAndUser jwtDecode cfg t True w)) =
      events w @
        (case jwtDecode t of
           None \<Rightarrow> []
         | Some claims \<Rightarrow>
             if onLoginSuccess cfg \<and> lastProcessedTokenRef w \<noteq> Some t
             then [LoginSuccess (claimsUser claims) t] else [])"
    by (simp only: saveTokenAndUser_twice saveTokenAndUser_events)
  have mono: "events (saveTokenAndUser_mono jwtDecode cfg t
        (saveTokenAndUser_mono jwtDecode cfg t u)) =
      events u @
        (case jwtDecode t of
           None \<Rightarrow> []
         | Some claims \<Rightarrow>
             if onLoginSuccess cfg
             then [LoginSuccess (claimsUser claims) t, LoginSuccess (claimsUser claims) t]
             else [])"
    by (cases "jwtDecode t") (simp_all add: saveTokenAndUser_mono_events)
  show ?thesis
    using hook mono
    by (simp add: saveTokenAndUser_twice decodeAndSetToken_next_render decodeAndSetToken_events)
qed

theorem materialize_twice_side_effects_witness:
  "loginCount (saveTokenAndUser demoDecode demoConfig ''validJWT'' True
      (saveTokenAndUser demoDecode demoConfig ''validJWT'' True (pageLoad freshWorld))) = 1 \<and>
   loginCount (decodeAndSetToken demoDecode demoConfig
      (authState (decodeAndSetToken demoDecode demoConfig initialState ''validJWT'' False freshWorld))
      ''validJWT'' False
      (decodeAndSetToken demoDecode demoConfig initialState ''validJWT'' False freshWorld)) = 1 \<and>
   loginCount (saveTokenAndUser_mono demoDecode demoConfig ''validJWT''
      (saveTokenAndUser_mono demoDecode demoConfig ''validJWT'' (pageLoad freshWorld))) = 2"
proof -
  have d: "demoDecode ''validJWT'' =
      Some ((\<lambda>k. None)(''sub'' := Some (JStr ''u1''), ''email'' := Some (JStr ''a@b.com'')))"
    by (simp add: demoDecode_def)
  have c: "onLoginSuccess demoConfig"
    by (simp add: demoConfig_def)
  have l: "lastProcessedTokenRef (pageLoad freshWorld) \<noteq> Some ''validJWT''"
    by (simp add: pageLoad_def)
  have s: "\<not> (token initialState = Some ''validJWT'' \<and> isAuthenticated initialState)"
    by (simp add: initialState_def)
  have e: "events (pageLoad freshWorld) = []" "events freshWorld = []"
    by (simp_all add: pageLoad_def freshWorld_def)
  note r = materialize_twice_side_effects [where jwtDecode = demoDecode and t = "''validJWT''"
      and cfg = demoConfig and w = "pageLoad freshWorld" and st = initialState
      and v = freshWorld and u = "pageLoad freshWorld"]
  note hook = r [THEN conjunct2, THEN conjunct1]
  note prov = r [THEN conjunct2, THEN conjunct2, THEN conjunct1, THEN mp, OF s, THEN conjunct2]
  note mono = r [THEN conjunct2, THEN conjunct2, THEN conjunct2]
  show ?thesis
    unfolding loginCount_def hook prov mono by (simp add: d c l e)
qed

text \<open>
  The guard of \<^verbatim>\<open>decodeAndSetToken\<close> reads the captured state: called again from the same
  render, it runs a second time, for every token that decodes.
\<close>

lemma decodeAndSetToken_same_render:
  assumes "jwtDecode t = Some claims" and "onLoginSuccess cfg"
    and "\<not> (token st = Some t \<and> isAuthenticated st)"
  shows "events (decodeAndSetToken jwtDecode cfg st t False
           (decodeAndSetToken jwtDecode cfg st t False v)) =
         events v @ [LoginSuccess (decodedUser claims) t, LoginSuccess (decodedUser claims) t]"
  using assms by (auto simp: decodeAndSetToken_def call_onLoginSuccess_def setAuthState_def Let_def)

section \<open>Restoring a session\<close>

text \<open>
  Claim C5. The claim asks that restoring a session from the durable storage does not
  invoke \<^verbatim>\<open>onLoginSuccess\<close>. The initial-load effect of \<^verbatim>\<open>useAuthCoreState\<close> calls
  \<^verbatim>\<open>saveTokenAndUser(storedToken, false)\<close>, which invokes the callback whatever its second
  argument: after a login and a page load the callback has run twice.
\<close>

theorem initialTokenLoad_invokes_onLoginSuccess:
  "loginCount (saveTokenAndUser demoDecode demoConfig ''validJWT'' True (pageLoad freshWorld)) = 1 \<and>
   loginCount (initialTokenLoad demoDecode demoConfig
      (pageLoad (saveTokenAndUser demoDecode demoConfig ''validJWT'' True (pageLoad freshWorld)))) = 2"
  by (simp add: loginCount_def op_defs demo_defs)

text \<open>
  In general: every page load of the hook revision that finds a decodable token invokes
  the callback.
\<close>

lemma initialTokenLoad_notifies:
  assumes "localStorage w (tokenKey cfg) = Some t" and "t \<noteq> []"
    and "jwtDecode t = Some claims" and "onLoginSuccess cfg"
  shows "events (initialTokenLoad jwtDecode cfg (pageLoad w)) =
           events w @ [LoginSuccess (claimsUser claims) t]"
  using assms
  by (simp add: initialTokenLoad_def saveTokenAndUser_def pageLoad_def setAuthState_def Let_def)

text \<open>
  The provider of \<^verbatim>\<open>src/AuthContext.tsx\<close> passes \<^verbatim>\<open>skipCallback = true\<close> on mount: there the
  restore is passive and gives the session of the login back.
\<close>

lemma decodeAndSetToken_skipCallback:
  "events (decodeAndSetToken jwtDecode cfg st t True w) = events w"
  by (simp add: decodeAndSetToken_def setAuthState_def Let_def split: option.splits)

lemma loadTokenOnMount_passive:
  "events (loadTokenOnMount jwtDecode cfg st w) = events w"
  by (simp add: loadTokenOnMount_def decodeAndSetToken_skipCallback split: option.splits)

lemma provider_restore_round_trip:
  assumes "jwtDecode t = Some claims" and "t \<noteq> []"
    and "\<not> (token st = Some t \<and> isAuthenticated st)"
  shows "events (loadTokenOnMount jwtDecode cfg initialState
            (pageLoad_provider (decodeAndSetToken jwtDecode cfg st t False w))) =
           events (decodeAndSetToken jwtDecode cfg st t False w) \<and>
         authState (loadTokenOnMount jwtDecode cfg initialState
            (pageLoad_provider (decodeAndSetToken jwtDecode cfg st t False w))) =
           authState (decodeAndSetToken jwtDecode cfg st t False w) \<and>
         token (authState (decodeAndSetToken jwtDecode cfg st t False w)) = Some t"
  using assms
  by (auto simp: loadTokenOnMount_def decodeAndSetToken_def call_onLoginSuccess_def
      pageLoad_provider_def initialState_def setAuthState_def Let_def)

text \<open>
  A stored value that does not decode is still in the durable storage after the restore,
  in both revisions. And a stored empty string, which does not decode either, is taken
  for no token: the restore sets no error.
\<close>

theorem restore_keeps_bad_token:
  "demoDecode ''garbage'' = None \<and>
   localStorage (initialTokenLoad demoDecode demoConfig (pageLoad garbageWorld))
     (tokenKey demoConfig) = Some ''garbage'' \<and>
   localStorage (loadTokenOnMount demoDecode demoConfig initialState (pageLoad_provider garbageWorld))
     (tokenKey demoConfig) = Some ''garbage'' \<and>
   demoDecode [] = None \<and>
   localStorage emptyTokenWorld (tokenKey demoConfig) = Some [] \<and>
   error (authState (initialTokenLoad demoDecode demoConfig (pageLoad emptyTokenWorld))) = None \<and>
   error (authState (loadTokenOnMount demoDecode demoConfig initialState
     (pageLoad_provider emptyTokenWorld))) = None"
  by (simp add: op_defs demo_defs garbageWorld_def emptyTokenWorld_def)

text \<open>
  Claim C6, amended. For every stored value that \<open>jwtDecode\<close> rejects, the restore gives an
  unauthenticated session and the durable storage still holds that value under the
  configured key. The session carries an error when the value is not empty, and no error
  when it is the empty string.
\<close>

theorem restore_undecodable:
  assumes "localStorage w (tokenKey cfg) = Some v" and "jwtDecode v = None"
  shows "authState (initialTokenLoad jwtDecode cfg (pageLoad w)) =
           \<lparr>isAuthenticated = False, user = None, isLoading = False,
            error = (if v = [] then None
                     else Some ''Authentication processing failed. Invalid token format.''),
            token = None\<rparr> \<and>
         localStorage (initialTokenLoad jwtDecode cfg (pageLoad w)) (tokenKey cfg) = Some v \<and>
         authState (loadTokenOnMount jwtDecode cfg initialState (pageLoad_provider w)) =
           \<lparr>isAuthenticated = False, user = None, isLoading = False,
            error = (if v = [] then None else Some ''Invalid token format''), token = None\<rparr> \<and>
         localStorage (loadTokenOnMount jwtDecode cfg initialState (pageLoad_provider w))
           (tokenKey cfg) = Some v"
  using assms
  by (simp add: initialTokenLoad_def saveTokenAndUser_def loadTokenOnMount_def
      decodeAndSetToken_def pageLoad_def pageLoad_provider_def initialState_def
      setAuthState_def Let_def)

theorem restore_undecodable_witness:
  "error (authState (initialTokenLoad demoDecode demoConfig (pageLoad garbageWorld))) =
     Some ''Authentication processing failed. Invalid token format.'' \<and>
   \<not> isAuthenticated (authState (initialTokenLoad demoDecode demoConfig (pageLoad garbageWorld))) \<and>
   localStorage (initialTokenLoad demoDecode demoConfig (pageLoad garbageWorld))
     ''mgcmnd_auth_token'' = Some ''garbage'' \<and>
   error (authState (loadTokenOnMount demoDecode demoConfig initialState
     (pageLoad_provider garbageWorld))) = Some ''Invalid token format'' \<and>
   error (authState (initialTokenLoad demoDecode demoConfig (pageLoad emptyTokenWorld))) = None \<and>
   \<not> isAuthenticated (authState (initialTokenLoad demoDecode demoConfig
     (pageLoad emptyTokenWorld))) \<and>
   localStorage (loadTokenOnMount demoDecode demoConfig initialState
     (pageLoad_provider emptyTokenWorld)) ''mgcmnd_auth_token'' = Some []"
proof -
  have k: "tokenKey demoConfig = ''mgcmnd_auth_token''"
    by (simp add: tokenKey_def demoConfig_def)
  have a: "localStorage garbageWorld (tokenKey demoConfig) = Some ''garbage''"
    by (simp add: k garbageWorld_def)
  have c: "demoDecode ''garbage'' = None"
    by (simp add: demoDecode_def)
  have a': "localStorage emptyTokenWorld (tokenKey demoConfig) = Some []"
    by (simp add: k emptyTokenWorld_def)
  have c': "demoDecode [] = None"
    by (simp add: demoDecode_def)
  note r = restore_undecodable [of garbageWorld demoConfig "''garbage''" demoDecode, OF a c]
  note r' = restore_undecodable [of emptyTokenWorld demoConfig "[]" demoDecode, OF a' c']
  show ?thesis
    using r r' by (simp add: k)
qed

section \<open>The invariant of the session\<close>

text \<open>
  Claim C7. The claim asks that \<open>session_ok\<close> hold in every reachable state. In the hook
  revision, a session restored from the durable storage followed by a callback with a
  valid state and no token reaches \<^verbatim>\<open>{...prev, isAuthenticated: false, user: null, ...}\<close>:
  the token of the previous session stays in an unauthenticated session.
\<close>

theorem handleAuthCallback_breaks_invariant:
  "isAuthenticated (authState (initialTokenLoad demoDecode demoConfig (pageLoad returningWorld))) \<and>
   \<not> isAuthenticated (authState (handleAuthCallback demoDecode demoConfig (visit stateOnlyQuery
       (initialTokenLoad demoDecode demoConfig (pageLoad returningWorld))))) \<and>
   user (authState (handleAuthCallback demoDecode demoConfig (visit stateOnlyQuery
       (initialTokenLoad demoDecode demoConfig (pageLoad returningWorld))))) = None \<and>
   token (authState (handleAuthCallback demoDecode demoConfig (visit stateOnlyQuery
       (initialTokenLoad demoDecode demoConfig (pageLoad returningWorld))))) = Some ''validJWT'' \<and>
   \<not> session_ok (authState (handleAuthCallback demoDecode demoConfig (visit stateOnlyQuery
       (initialTokenLoad demoDecode demoConfig (pageLoad returningWorld)))))"
  by (simp add: session_ok_def op_defs demo_defs stateOnlyQuery_def)

text \<open>
  The provider of \<^verbatim>\<open>src/AuthContext.tsx\<close> keeps the invariant in every reachable state, and
  so do the operations of \<^verbatim>\<open>useAuthCoreState\<close> themselves.
\<close>

lemma decodeAndSetToken_session_ok:
  "session_ok (authState w) \<Longrightarrow>
   session_ok (authState (decodeAndSetToken jwtDecode cfg st t skipCallback w))"
  by (auto simp: decodeAndSetToken_def call_onLoginSuccess_def setAuthState_def session_ok_def
      Let_def split: option.splits if_splits)

lemma handleCallback_session_ok:
  "session_ok (authState w) \<Longrightarrow> session_ok (authState (handleCallback jwtDecode cfg st w))"
proof -
  assume ok: "session_ok (authState w)"
  have frame: "\<And>e v. authState v = authState w \<Longrightarrow>
      session_ok (authState (setAuthState (\<lambda>prev. prev\<lparr>error := e\<rparr>) v))"
    using ok by (simp add: setAuthState_def session_ok_def)
  have dec: "\<And>t v. authState v = authState w \<Longrightarrow>
      session_ok (authState (decodeAndSetToken jwtDecode cfg st t False v))"
    using ok by (simp add: decodeAndSetToken_session_ok)
  show ?thesis
    by (simp add: handleCallback_def Let_def frame dec replaceState_pathname_def
        split: option.splits)
qed

lemma provider_session_ok:
  "reachable_provider jwtDecode cfg w \<Longrightarrow> session_ok (authState w)"
proof (induction rule: reachable_provider.induct)
  case (rp_load w)
  show ?case by (simp add: pageLoad_provider_def initialState_def session_ok_def)
next
  case (rp_env w ls ss q)
  then show ?case by simp
next
  case (rp_mount w st)
  then show ?case
    by (simp add: loadTokenOnMount_def decodeAndSetToken_session_ok split: option.splits)
next
  case (rp_decode w st t skipCallback)
  then show ?case by (simp add: decodeAndSetToken_session_ok)
next
  case (rp_callback w st)
  then show ?case by (simp add: handleCallback_session_ok)
next
  case (rp_logout w redirectUrl)
  show ?case
    by (simp add: logout_def call_onLogoutSuccess_def setAuthState_def emptyAuthState_def
        session_ok_def Let_def split: option.splits)
qed

lemma saveTokenAndUser_session_ok:
  "session_ok (authState w) \<Longrightarrow>
   session_ok (authState (saveTokenAndUser jwtDecode cfg t b w))"
  by (cases "jwtDecode t")
    (auto simp: saveTokenAndUser_def setAuthState_def session_ok_def Let_def split: if_splits)

lemma clearTokenAndUser_session_ok:
  "session_ok (authState (clearTokenAndUser cfg w))"
  by (simp add: clearTokenAndUser_def setAuthState_def emptyAuthState_def session_ok_def Let_def)

lemma initialTokenLoad_session_ok:
  assumes "session_ok (authState w)"
  shows "session_ok (authState (initialTokenLoad jwtDecode cfg w))"
proof -
  have idle: "session_ok (authState (setAuthState (\<lambda>prev. prev\<lparr>isLoading := False\<rparr>) w))"
    using assms by (simp add: setAuthState_def session_ok_def)
  show ?thesis
    using assms idle
    by (simp add: initialTokenLoad_def saveTokenAndUser_session_ok split: option.splits)
qed

section \<open>Decoding and the subject claim\<close>

text \<open>
  A token whose payload has no \<^verbatim>\<open>sub\<close> is accepted by both revisions: the session is
  authenticated and carries no error. And for a payload with both \<^verbatim>\<open>sub\<close> and \<^verbatim>\<open>id\<close>,
  \<^verbatim>\<open>decodeAndSetToken\<close> gives the user the \<^verbatim>\<open>id\<close> of the payload, not its \<^verbatim>\<open>sub\<close>.
\<close>

theorem missing_sub_accepted_and_id_wins:
  "(case demoDecode ''noSubJWT'' of None \<Rightarrow> False | Some claims \<Rightarrow> claims ''sub'' = None) \<and>
   isAuthenticated (authState (saveTokenAndUser demoDecode demoConfig ''noSubJWT'' True
      (pageLoad freshWorld))) \<and>
   error (authState (saveTokenAndUser demoDecode demoConfig ''noSubJWT'' True
      (pageLoad freshWorld))) = None \<and>
   isAuthenticated (authState (decodeAndSetToken demoDecode demoConfig initialState ''noSubJWT'' False
      freshWorld)) \<and>
   error (authState (decodeAndSetToken demoDecode demoConfig initialState ''noSubJWT'' False
      freshWorld)) = None \<and>
   (case demoDecode ''idJWT'' of None \<Rightarrow> False
    | Some claims \<Rightarrow> claims ''sub'' = Some (JStr ''u1'')) \<and>
   (case user (authState (decodeAndSetToken demoDecode demoConfig initialState ''idJWT'' False
      freshWorld)) of None \<Rightarrow> False | Some u \<Rightarrow> u ''id'' = Some (JStr ''other''))"
  by (simp add: op_defs demo_defs decodedUser_def map_add_def)

lemma claimsUser_id: "claimsUser c ''id'' = c ''sub''"
  by (simp add: claimsUser_def Let_def)

lemma decodedUser_id:
  "decodedUser c ''id'' =
     (case c ''id'' of None \<Rightarrow> js_or (c ''sub'') None | Some v \<Rightarrow> Some v)"
  by (simp add: decodedUser_def map_add_def split: option.splits)

lemma saveTokenAndUser_authState:
  "authState (saveTokenAndUser jwtDecode cfg t b w) =
     (if lastProcessedTokenRef w = Some t then authState w
      else case jwtDecode t of
             None \<Rightarrow>
               (authState w)\<lparr>isLoading := False,
                 error := Some ''Authentication processing failed. Invalid token format.''\<rparr>
           | Some claims \<Rightarrow>
               \<lparr>isAuthenticated = True, user = Some (claimsUser claims), isLoading = False,
                error = None, token = Some t\<rparr>)"
  by (cases "jwtDecode t") (simp_all add: saveTokenAndUser_def setAuthState_def Let_def)

lemma saveTokenAndUser_mono_authState:
  "authState (saveTokenAndUser_mono jwtDecode cfg t w) =
     (case jwtDecode t of
        None \<Rightarrow>
          (authState w)\<lparr>isLoading := False,
            error := Some ''Authentication processing failed: Invalid token.''\<rparr>
      | Some claims \<Rightarrow>
          \<lparr>isAuthenticated = True, user = Some (claimsUser claims), isLoading = False,
           error = None, token = Some t\<rparr>)"
  by (cases "jwtDecode t") (simp_all add: saveTokenAndUser_mono_def setAuthState_def Let_def)

lemma decodeAndSetToken_authState:
  "authState (decodeAndSetToken jwtDecode cfg st t skipCallback v) =
     (if token st = Some t \<and> isAuthenticated st then authState v
      else case jwtDecode t of
             None \<Rightarrow> (authState v)\<lparr>isLoading := False, error := Some ''Invalid token format''\<rparr>
           | Some claims \<Rightarrow>
               \<lparr>isAuthenticated = True, user = Some (decodedUser claims), isLoading = False,
                error = None, token = Some t\<rparr>)"
  by (cases "jwtDecode t")
    (simp_all add: decodeAndSetToken_def call_onLoginSuccess_def setAuthState_def Let_def)

text \<open>
  Claim C8, amended. Materializing a token leaves the session as it is when the guard
  holds that token: the ref
  \<open>lastProcessedTokenRef\<close> in \<^verbatim>\<open>saveTokenAndUser\<close> of \<^verbatim>\<open>useAuthCoreState\<close>, the captured
  state, authenticated, in \<^verbatim>\<open>decodeAndSetToken\<close>; the older provider has no guard.
  Otherwise it fails when \<open>jwtDecode\<close> throws, and then writes \<open>isLoading\<close> and \<open>error\<close>
  only; every token that decodes gives an authenticated session, with or without a
  subject claim. The \<open>id\<close> of the user is the \<^verbatim>\<open>sub\<close> claim in \<^verbatim>\<open>saveTokenAndUser\<close>, absent
  when the payload has none. In \<^verbatim>\<open>decodeAndSetToken\<close>, for a payload with no \<^verbatim>\<open>id\<close> of its
  own it is the \<^verbatim>\<open>sub\<close> claim when that is truthy and absent otherwise, and for a payload
  whose \<^verbatim>\<open>sub\<close> is absent or falsy it is the \<^verbatim>\<open>id\<close> of the payload.
\<close>

theorem materialize_decode_outcomes:
  "authState (saveTokenAndUser jwtDecode cfg t b w) =
     (if lastProcessedTokenRef w = Some t then authState w
      else case jwtDecode t of
             None \<Rightarrow>
               (authState w)\<lparr>isLoading := False,
                 error := Some ''Authentication processing failed. Invalid token format.''\<rparr>
           | Some claims \<Rightarrow>
               \<lparr>isAuthenticated = True, user = Some (claimsUser claims), isLoading = False,
                error = None, token = Some t\<rparr>) \<and>
   authState (saveTokenAndUser_mono jwtDecode cfg t w) =
     (case jwtDecode t of
        None \<Rightarrow>
          (authState w)\<lparr>isLoading := False,
            error := Some ''Authentication processing failed: Invalid token.''\<rparr>
      | Some claims \<Rightarrow>
          \<lparr>isAuthenticated = True, user = Some (claimsUser claims), isLoading = False,
           error = None, token = Some t\<rparr>) \<and>
   authState (decodeAndSetToken jwtDecode cfg st t skipCallback v) =
     (if token st = Some t \<and> isAuthenticated st then authState v
      else case jwtDecode t of
             None \<Rightarrow> (authState v)\<lparr>isLoading := False, error := Some ''Invalid token format''\<rparr>
           | Some claims \<Rightarrow>
               \<lparr>isAuthenticated = True, user = Some (decodedUser claims), isLoading = False,
                error = None, token = Some t\<rparr>) \<and>
   claimsUser c ''id'' = c ''sub'' \<and>
   (c ''id'' = None \<longrightarrow>
      decodedUser c ''id'' = (if prop_truthy (c ''sub'') then c ''sub'' else None)) \<and>
   (\<not> prop_truthy (c ''sub'') \<longrightarrow> decodedUser c ''id'' = c ''id'')"
proof -
  have no_id: "c ''id'' = None \<Longrightarrow>
      decodedUser c ''id'' = (if prop_truthy (c ''sub'') then c ''sub'' else None)"
    by (simp add: decodedUser_id js_or_def)
  have no_sub: "\<not> prop_truthy (c ''sub'') \<Longrightarrow> decodedUser c ''id'' = c ''id''"
    by (cases "c ''id''") (simp_all add: decodedUser_id js_or_def)
  show ?thesis
    using no_id no_sub
    by (simp only: saveTokenAndUser_authState saveTokenAndUser_mono_authState
        decodeAndSetToken_authState claimsUser_id) simp
qed

theorem materialize_decode_outcomes_witness:
  "isAuthenticated (authState (saveTokenAndUser demoDecode demoConfig ''validJWT'' True
      (pageLoad freshWorld))) \<and>
   (case user (authState (saveTokenAndUser demoDecode demoConfig ''validJWT'' True
      (pageLoad freshWorld))) of None \<Rightarrow> False | Some u \<Rightarrow> u ''id'' = Some (JStr ''u1'')) \<and>
   (case user (authState (decodeAndSetToken demoDecode demoConfig initialState ''validJWT'' False
      freshWorld)) of None \<Rightarrow> False | Some u \<Rightarrow> u ''id'' = Some (JStr ''u1'')) \<and>
   (case user (authState (decodeAndSetToken demoDecode demoConfig initialState ''noSubJWT'' False
      freshWorld)) of None \<Rightarrow> False | Some u \<Rightarrow> u ''id'' = None) \<and>
   error (authState (saveTokenAndUser demoDecode demoConfig ''garbage'' True
      (pageLoad freshWorld))) =
     Some ''Authentication processing failed. Invalid token format.''"
proof -
  have l: "lastProcessedTokenRef (pageLoad freshWorld) = None"
    by (simp add: pageLoad_def)
  have s: "token initialState = None"
    by (simp add: initialState_def)
  have d: "demoDecode ''validJWT'' =
      Some ((\<lambda>k. None)(''sub'' := Some (JStr ''u1''), ''email'' := Some (JStr ''a@b.com'')))"
    "demoDecode ''noSubJWT'' = Some ((\<lambda>k. None)(''email'' := Some (JStr ''a@b.com'')))"
    "demoDecode ''garbage'' = None"
    by (simp_all add: demoDecode_def)
  note valid = materialize_decode_outcomes [where jwtDecode = demoDecode and cfg = demoConfig
      and t = "''validJWT''" and b = True and w = "pageLoad freshWorld" and st = initialState
      and skipCallback = False and v = freshWorld
      and c = "(\<lambda>k. None)(''sub'' := Some (JStr ''u1''), ''email'' := Some (JStr ''a@b.com''))"]
  note nosub = materialize_decode_outcomes [where jwtDecode = demoDecode and cfg = demoConfig
      and t = "''noSubJWT''" and b = True and w = "pageLoad freshWorld" and st = initialState
      and skipCallback = False and v = freshWorld
      and c = "(\<lambda>k. None)(''email'' := Some (JStr ''a@b.com''))"]
  note bad = materialize_decode_outcomes [where jwtDecode = demoDecode and cfg = demoConfig
      and t = "''garbage''" and b = True and w = "pageLoad freshWorld" and st = initialState
      and skipCallback = False and v = freshWorld and c = "\<lambda>k. None"]
  show ?thesis
    using valid nosub bad by (simp add: d l s)
qed

section \<open>Clearing the session\<close>

text \<open>
  On a session that is already empty, with nothing in the durable storage, both
  \<^verbatim>\<open>clearTokenAndUser\<close> and \<^verbatim>\<open>logout\<close> invoke \<^verbatim>\<open>onLogoutSuccess\<close>.
\<close>

theorem clear_empty_session_notifies:
  "authState freshWorld = emptyAuthState \<and>
   localStorage freshWorld (tokenKey demoConfig) = None \<and>
   onLogoutSuccess demoConfig \<and>
   events (clearTokenAndUser demoConfig freshWorld) = events freshWorld @ [LogoutSuccess] \<and>
   events (logout demoConfig None freshWorld) = events freshWorld @ [LogoutSuccess]"
  by (simp add: clearTokenAndUser_def logout_def call_onLogoutSuccess_def setAuthState_def
      emptyAuthState_def Let_def demo_defs)

text \<open>
  Claim C9, amended. Clearing gives the empty session and removes the stored token, and
  it invokes the configured \<^verbatim>\<open>onLogoutSuccess\<close> once on every call, whether or not there
  was a session to clear.
\<close>

theorem clear_always_notifies:
  "authState (clearTokenAndUser cfg w) = emptyAuthState \<and>
   localStorage (clearTokenAndUser cfg w) (tokenKey cfg) = None \<and>
   events (clearTokenAndUser cfg w) =
     events w @ (if onLogoutSuccess cfg then [LogoutSuccess] else []) \<and>
   authState (logout cfg None w) = emptyAuthState \<and>
   localStorage (logout cfg None w) (tokenKey cfg) = None \<and>
   events (logout cfg None w) =
     events w @ (if onLogoutSuccess cfg then [LogoutSuccess] else [])"
  by (simp add: clearTokenAndUser_def logout_def call_onLogoutSuccess_def setAuthState_def Let_def)

theorem clear_always_notifies_witness:
  "authState (clearTokenAndUser demoConfig freshWorld) =
     \<lparr>isAuthenticated = False, user = None, isLoading = False, error = None, token = None\<rparr> \<and>
   events (clearTokenAndUser demoConfig freshWorld) = [LogoutSuccess] \<and>
   events (logout demoConfig None freshWorld) = [LogoutSuccess]"
  using clear_always_notifies [of demoConfig freshWorld]
  by (simp add: emptyAuthState_def demoConfig_def freshWorld_def)

section \<open>A failed decode keeps the session\<close>

text \<open>
  Claim C10. When the token does not decode (and is not the active one, which has
  decoded), \<^verbatim>\<open>saveTokenAndUser\<close> of both revisions and \<^verbatim>\<open>decodeAndSetToken\<close> write
  \<open>isLoading\<close> and \<open>error\<close> only: \<open>isAuthenticated\<close>, \<open>user\<close> and \<open>token\<close> of the session
  are those before the call.
\<close>

theorem failed_decode_keeps_session:
  assumes "jwtDecode t = None"
    and "lastProcessedTokenRef w \<noteq> Some t"
    and "\<not> (token st = Some t \<and> isAuthenticated st)"
  shows "authState (saveTokenAndUser jwtDecode cfg t b w) =
           (authState w)\<lparr>isLoading := False,
             error := Some ''Authentication processing failed. Invalid token format.''\<rparr> \<and>
         authState (saveTokenAndUser_mono jwtDecode cfg t w) =
           (authState w)\<lparr>isLoading := False,
             error := Some ''Authentication processing failed: Invalid token.''\<rparr> \<and>
         authState (decodeAndSetToken jwtDecode cfg st t skipCallback w) =
           (authState w)\<lparr>isLoading := False, error := Some ''Invalid token format''\<rparr>"
  using assms
  by (auto simp: saveTokenAndUser_def saveTokenAndUser_mono_def decodeAndSetToken_def
      setAuthState_def Let_def)

theorem failed_decode_keeps_session_witness:
  "isAuthenticated (authState (saveTokenAndUser demoDecode demoConfig ''garbage'' True
      (saveTokenAndUser demoDecode demoConfig ''validJWT'' True (pageLoad freshWorld)))) \<and>
   token (authState (saveTokenAndUser demoDecode demoConfig ''garbage'' True
      (saveTokenAndUser demoDecode demoConfig ''validJWT'' True (pageLoad freshWorld)))) =
     Some ''validJWT'' \<and>
   error (authState (saveTokenAndUser demoDecode demoConfig ''garbage'' True
      (saveTokenAndUser demoDecode demoConfig ''validJWT'' True (pageLoad freshWorld)))) =
     Some ''Authentication processing failed. Invalid token format.''"
proof -
  have d: "demoDecode ''garbage'' = None"
    by (simp add: demoDecode_def)
  have l: "lastProcessedTokenRef
      (saveTokenAndUser demoDecode demoConfig ''validJWT'' True (pageLoad freshWorld)) \<noteq> Some ''garbage''"
    by (simp add: saveTokenAndUser_def setAuthState_def Let_def demoDecode_def demoConfig_def
        pageLoad_def freshWorld_def)
  have s: "\<not> (token initialState = Some ''garbage'' \<and> isAuthenticated initialState)"
    by (simp add: initialState_def)
  have before: "isAuthenticated (authState
      (saveTokenAndUser demoDecode demoConfig ''validJWT'' True (pageLoad freshWorld))) \<and>
    token (authState
      (saveTokenAndUser demoDecode demoConfig ''validJWT'' True (pageLoad freshWorld))) = Some ''validJWT''"
    by (simp add: saveTokenAndUser_def setAuthState_def Let_def demoDecode_def demoConfig_def
        pageLoad_def freshWorld_def)
  note r = failed_decode_keeps_session [where jwtDecode = demoDecode and t = "''garbage''"
      and w = "saveTokenAndUser demoDecode demoConfig ''validJWT'' True (pageLoad freshWorld)"
      and st = initialState and cfg = demoConfig and b = True, OF d l s]
  show ?thesis
    using r before by simp
qed

end
